theory Spec2Isabelle
  imports Main "HOL-Library.Word"
begin

section \<open>Formatting: the fragment of \<open>fmt.Sprintf\<close> the package uses\<close>

text \<open>
  The path builders of \<open>deploy_requests.go\<close> call \<open>fmt.Sprintf\<close> with the verbs
  \<open>%s\<close> (on strings) and \<open>%d\<close> (on a \<open>uint64\<close>). \<open>FormatUint\<close> is the decimal
  numeral \<open>%d\<close> prints for an unsigned integer: no sign, no leading zero.
\<close>

definition digit :: "nat \<Rightarrow> char" where
  "digit n = ''0123456789'' ! n"

fun FormatUint :: "nat \<Rightarrow> string" where
  "FormatUint n = (if n < 10 then [digit n] else FormatUint (n div 10) @ [digit (n mod 10)])"

declare FormatUint.simps [simp del]

datatype arg = S string | U "64 word"

text \<open>
  An operand under a verb: \<open>%s\<close> prints a string as it is and \<open>%d\<close> a \<open>uint64\<close> in
  decimal; the two mismatches print Go's bad-verb notation.
\<close>

fun verb :: "char \<Rightarrow> arg \<Rightarrow> string" where
  "verb c (S s) = (if c = CHR ''s'' then s else ''%!'' @ [c] @ ''(string='' @ s @ '')'')"
| "verb c (U n) =
     (if c = CHR ''d'' then FormatUint (unat n)
      else ''%!'' @ [c] @ ''(uint64='' @ FormatUint (unat n) @ '')'')"

fun extra :: "arg \<Rightarrow> string" where
  "extra (S s) = ''string='' @ s"
| "extra (U n) = ''uint64='' @ FormatUint (unat n)"

fun join :: "string \<Rightarrow> string list \<Rightarrow> string" where
  "join sep [] = []"
| "join sep [x] = x"
| "join sep (x # y # ys) = x @ sep @ join sep (y # ys)"

text \<open>
  \<open>Sprintf\<close> walks the format: \<open>%%\<close> is a percent sign, a verb consumes the next
  operand (\<open>%!v(MISSING)\<close> when none is left), a trailing \<open>%\<close> is \<open>%!(NOVERB)\<close>, and
  operands left over are reported after the text.
\<close>

fun Sprintf :: "string \<Rightarrow> arg list \<Rightarrow> string" where
  "Sprintf [] [] = []"
| "Sprintf [] (a # as) = ''%!(EXTRA '' @ join '', '' (map extra (a # as)) @ '')''"
| "Sprintf [c] as = (if c = CHR ''%'' then ''%!(NOVERB)'' @ Sprintf [] as else c # Sprintf [] as)"
| "Sprintf (c # v # fs) as =
     (if c \<noteq> CHR ''%'' then c # Sprintf (v # fs) as
      else if v = CHR ''%'' then CHR ''%'' # Sprintf fs as
      else (case as of
              [] \<Rightarrow> ''%!'' @ [v] @ ''(MISSING)'' @ Sprintf fs []
            | a # as' \<Rightarrow> verb v a @ Sprintf fs as'))"

section \<open>Path construction\<close>

text \<open>
  \<open>databasesAPIPath\<close> is a function of the package that \<open>deploy_requests.go\<close> calls
  and does not define; the builders take it as their first argument.
\<close>

definition deployRequestsAPIPath :: "(string \<Rightarrow> string) \<Rightarrow> string \<Rightarrow> string \<Rightarrow> string" where
  "deployRequestsAPIPath databasesAPIPath org db =
     Sprintf ''%s/%s/deploy-requests'' [S (databasesAPIPath org), S db]"

definition deployRequestAPIPath ::
  "(string \<Rightarrow> string) \<Rightarrow> string \<Rightarrow> string \<Rightarrow> 64 word \<Rightarrow> string" where
  "deployRequestAPIPath databasesAPIPath org db number =
     Sprintf ''%s/%s/deploy-requests/%d'' [S (databasesAPIPath org), S db, U number]"

definition deployRequestActionAPIPath ::
  "(string \<Rightarrow> string) \<Rightarrow> string \<Rightarrow> string \<Rightarrow> 64 word \<Rightarrow> string \<Rightarrow> string" where
  "deployRequestActionAPIPath databasesAPIPath org db number path =
     Sprintf ''%s/%s'' [S (deployRequestAPIPath databasesAPIPath org db number), S path]"

section \<open>Properties of the path builders\<close>

lemma deployRequestsAPIPath_eq:
  "deployRequestsAPIPath p org db = p org @ ''/'' @ db @ ''/deploy-requests''"
  by (simp add: deployRequestsAPIPath_def)

lemma deployRequestAPIPath_eq:
  "deployRequestAPIPath p org db n =
     p org @ ''/'' @ db @ ''/deploy-requests/'' @ FormatUint (unat n)"
  by (simp add: deployRequestAPIPath_def)

lemma deployRequestActionAPIPath_eq:
  "deployRequestActionAPIPath p org db n v = deployRequestAPIPath p org db n @ ''/'' @ v"
  by (simp add: deployRequestActionAPIPath_def)

text \<open>
  C1. For every organization \<open>o\<close>, database \<open>d\<close>, deploy-request number \<open>n\<close> and action
  verb \<open>v\<close>, the action path is the single-resource path followed by \<open>/\<close> and \<open>v\<close>, and
  the single-resource path is the collection path followed by \<open>/\<close> and the decimal
  numeral of \<open>n\<close>.
\<close>

theorem path_builders_compose:
  "deployRequestActionAPIPath p o' d n v = deployRequestAPIPath p o' d n @ ''/'' @ v \<and>
   deployRequestAPIPath p o' d n = deployRequestsAPIPath p o' d @ ''/'' @ FormatUint (unat n)"
  by (simp add: deployRequestActionAPIPath_eq deployRequestAPIPath_eq deployRequestsAPIPath_eq)

end
